theory Spec2Isabelle
  imports Complex_Main "HOL-Library.Word"
begin

section \<open>JavaScript values used by the frontend\<close>

text \<open>
  A JavaScript string is a sequence of UTF-16 code units. String literals of the source
  are ASCII and are embedded with \<open>lit\<close>.
\<close>

type_synonym jsstring = "16 word list"

definition lit :: "string \<Rightarrow> jsstring" where
  "lit s = map of_char s"

text \<open>
  \<open>String.prototype.trim\<close> removes WhiteSpace and LineTerminator code units
  (ECMAScript 12.2 and 12.3) from both ends: TAB, LF, VT, FF, CR, SP, NBSP, the
  space separators U+1680, U+2000 to U+200A, U+202F, U+205F, U+3000, the
  separators U+2028 and U+2029, and U+FEFF.
\<close>

definition isWhiteSpace :: "16 word \<Rightarrow> bool" where
  "isWhiteSpace c \<longleftrightarrow>
     c \<in> {0x0009, 0x000A, 0x000B, 0x000C, 0x000D, 0x0020, 0x00A0, 0x1680,
          0x2028, 0x2029, 0x202F, 0x205F, 0x3000, 0xFEFF}
     \<or> (0x2000 \<le> c \<and> c \<le> 0x200A)"

definition trim :: "jsstring \<Rightarrow> jsstring" where
  "trim s = rev (dropWhile isWhiteSpace (rev (dropWhile isWhiteSpace s)))"

text \<open>A string is falsy exactly when it is empty.\<close>

definition falsy :: "jsstring \<Rightarrow> bool" where
  "falsy s \<longleftrightarrow> s = []"

text \<open>\<open>Number.prototype.toString\<close> on a non-negative integer: its decimal digits.\<close>

definition digit :: "nat \<Rightarrow> 16 word" where
  "digit d = of_nat (48 + d)"

function toString :: "nat \<Rightarrow> jsstring" where
  "toString n = (if n < 10 then [digit n] else toString (n div 10) @ [digit (n mod 10)])"
  by pat_completeness auto
termination
  by (relation "measure (\<lambda>n. n)") auto

declare toString.simps [simp del]

text \<open>
  The values handed to \<open>JSON.stringify\<close> by the API client are object literals whose
  properties are strings, numbers or \<open>undefined\<close>. \<open>JSON.stringify\<close> leaves out a
  property whose value is \<open>undefined\<close>. The request body is kept as the JSON document
  that the produced text denotes.
\<close>

datatype json = JString jsstring | JNumber int | JObject "(jsstring \<times> json) list"

datatype jsvalue = Undefined | Str jsstring | Num int

fun stringify_property :: "jsstring \<times> jsvalue \<Rightarrow> (jsstring \<times> json) list" where
  "stringify_property (k, Undefined) = []"
| "stringify_property (k, Str s) = [(k, JString s)]"
| "stringify_property (k, Num n) = [(k, JNumber n)]"

definition JSON_stringify :: "(jsstring \<times> jsvalue) list \<Rightarrow> json" where
  "JSON_stringify props = JObject (concat (map stringify_property props))"

text \<open>An optional argument or property: \<open>None\<close> is \<open>undefined\<close>.\<close>

definition optional :: "jsstring option \<Rightarrow> jsvalue" where
  "optional v = (case v of None \<Rightarrow> Undefined | Some s \<Rightarrow> Str s)"

section \<open>API client (lib/api)\<close>

record DocumentUploadResponse =
  document_id :: jsstring
  filename :: jsstring
  topics :: "jsstring list"
  sections :: "(jsstring \<times> jsstring) list"
  concept_list :: "(jsstring \<times> jsstring) list"
  raw_text :: jsstring
  structure_map :: json
  word_count :: int
  page_count :: int

datatype node_type = Root | Branch | Leaf

record node_data =
  label :: jsstring
  description :: jsstring
  level :: int

record graph_node =
  node_id :: jsstring
  node_type :: node_type
  node_data :: node_data
  position :: "real \<times> real"

text \<open>
  An edge of the API response has \<open>id\<close>, \<open>source\<close>, \<open>target\<close> and \<open>type\<close>. The graph
  library's edges, which the rendering component stores, may also carry a source
  and a target handle, and an edge made from a drawn connection has no \<open>type\<close>.
\<close>

record graph_edge =
  edge_id :: jsstring
  source :: jsstring
  target :: jsstring
  edge_type :: "jsstring option"
  sourceHandle :: "jsstring option"
  targetHandle :: "jsstring option"

record KnowledgeGraphResponse =
  nodes :: "graph_node list"
  edges :: "graph_edge list"
  layout :: jsstring

record SummaryResponse =
  one_page :: jsstring
  five_page :: jsstring
  bullet_points :: "jsstring list"
  chapters :: "(jsstring \<times> jsstring \<times> jsstring) list"

record flashcard =
  card_id :: jsstring
  question :: jsstring
  answer :: jsstring
  card_difficulty :: jsstring
  card_category :: jsstring
  tags :: "jsstring list"

record FlashcardResponse =
  flashcards :: "flashcard list"

record TutorResponse =
  explanation :: jsstring
  examples :: "jsstring list"
  practice_questions :: "(jsstring \<times> jsstring) list"
  tips :: "jsstring list"
  summary :: "jsstring list"
  difficulty_level :: jsstring
  related_topics :: "jsstring list"
  response_type :: jsstring

text \<open>
  \<open>apiCall\<close> is imported from \<open>./utils\<close>; a client function is modelled by the call it
  makes: the endpoint and the options \<open>method\<close> and \<open>body\<close>.
\<close>

record apiCall =
  endpoint :: jsstring
  http_method :: jsstring
  body :: json

definition generateKnowledgeGraph :: "jsstring \<Rightarrow> jsstring \<Rightarrow> apiCall" where
  "generateKnowledgeGraph documentId content =
     \<lparr>endpoint = lit ''/generate/graph'',
      http_method = lit ''POST'',
      body = JSON_stringify
        [(lit ''document_id'', Str documentId), (lit ''content'', Str content)]\<rparr>"

definition generateSummary :: "jsstring \<Rightarrow> jsstring \<Rightarrow> apiCall" where
  "generateSummary documentId content =
     \<lparr>endpoint = lit ''/generate/summary'',
      http_method = lit ''POST'',
      body = JSON_stringify
        [(lit ''document_id'', Str documentId), (lit ''content'', Str content)]\<rparr>"

definition generateFlashcards :: "jsstring \<Rightarrow> jsstring \<Rightarrow> apiCall" where
  "generateFlashcards documentId content =
     \<lparr>endpoint = lit ''/generate/flashcards'',
      http_method = lit ''POST'',
      body = JSON_stringify
        [(lit ''document_id'', Str documentId), (lit ''content'', Str content)]\<rparr>"

definition askTutor :: "jsstring \<Rightarrow> jsstring option \<Rightarrow> apiCall" where
  "askTutor question' context' =
     \<lparr>endpoint = lit ''/tutor'',
      http_method = lit ''POST'',
      body = JSON_stringify
        [(lit ''question'', Str question'), (lit ''context'', optional context')]\<rparr>"

text \<open>An error thrown by a rejected API call, with its message.\<close>

datatype api_error = ApiError jsstring

section \<open>File selection (file-upload component)\<close>

record File =
  file_name :: jsstring
  file_type :: jsstring
  file_size :: nat

record UploadState =
  upload_file :: "File option"
  uploading :: bool
  progress :: int
  error :: "jsstring option"
  success :: bool

definition initialUploadState :: UploadState where
  "initialUploadState =
     \<lparr>upload_file = None, uploading = False, progress = 0, error = None, success = False\<rparr>"

definition allowedTypes :: "jsstring list" where
  "allowedTypes =
     [lit ''application/pdf'',
      lit ''application/vnd.openxmlformats-officedocument.presentationml.presentation'',
      lit ''text/plain'']"

text \<open>\<open>handleFileSelect\<close> updates the state through \<open>setUploadState (prev => ...)\<close>.\<close>

definition handleFileSelect :: "File \<Rightarrow> UploadState \<Rightarrow> UploadState" where
  "handleFileSelect f prev =
     (if file_type f \<notin> set allowedTypes then
        prev\<lparr>error := Some (lit ''Please select a PDF, PPTX, or TXT file''), upload_file := None\<rparr>
      else if file_size f > 50 * 1024 * 1024 then
        prev\<lparr>error := Some (lit ''File size must be less than 50MB''), upload_file := None\<rparr>
      else
        prev\<lparr>upload_file := Some f, error := None, success := False\<rparr>)"

section \<open>Flashcard study view (flashcards component)\<close>

record FlashcardState =
  currentIndex :: int
  isFlipped :: bool
  showAnswer :: bool
  correctAnswers :: int
  incorrectAnswers :: int
  studiedCards :: "jsstring set"
  difficulty :: jsstring
  category :: jsstring

definition initialFlashcardState :: FlashcardState where
  "initialFlashcardState =
     \<lparr>currentIndex = 0, isFlipped = False, showAnswer = False, correctAnswers = 0,
      incorrectAnswers = 0, studiedCards = {}, difficulty = lit ''all'',
      category = lit ''all''\<rparr>"

text \<open>
  The values computed by one render from the props \<open>data\<close> and the state of that
  render. \<open>filteredCards[state.currentIndex]\<close> is \<open>undefined\<close> out of range.
\<close>

definition filteredCards :: "FlashcardResponse \<Rightarrow> FlashcardState \<Rightarrow> flashcard list" where
  "filteredCards data st =
     filter (\<lambda>card.
        (difficulty st = lit ''all'' \<or> card_difficulty card = difficulty st)
        \<and> (category st = lit ''all'' \<or> card_category card = category st))
       (flashcards data)"

definition totalCards :: "FlashcardResponse \<Rightarrow> FlashcardState \<Rightarrow> int" where
  "totalCards data st = int (length (filteredCards data st))"

definition currentCard :: "FlashcardResponse \<Rightarrow> FlashcardState \<Rightarrow> flashcard option" where
  "currentCard data st =
     (if 0 \<le> currentIndex st \<and> currentIndex st < totalCards data st
      then Some (filteredCards data st ! nat (currentIndex st)) else None)"

text \<open>
  A handler is a closure of the render that created it: its guard reads \<open>state\<close> and
  \<open>totalCards\<close> of that render, its update is applied to the state \<open>prev\<close> that is
  current when the update runs.
\<close>

definition handleFlip :: "FlashcardState \<Rightarrow> FlashcardState" where
  "handleFlip prev = prev\<lparr>isFlipped := \<not> isFlipped prev, showAnswer := \<not> showAnswer prev\<rparr>"

definition handleNext ::
  "FlashcardResponse \<Rightarrow> FlashcardState \<Rightarrow> FlashcardState \<Rightarrow> FlashcardState" where
  "handleNext data state prev =
     (if currentIndex state < totalCards data state - 1 then
        prev\<lparr>currentIndex := currentIndex prev + 1, isFlipped := False, showAnswer := False\<rparr>
      else prev)"

definition handlePrevious :: "FlashcardState \<Rightarrow> FlashcardState \<Rightarrow> FlashcardState" where
  "handlePrevious state prev =
     (if currentIndex state > 0 then
        prev\<lparr>currentIndex := currentIndex prev - 1, isFlipped := False, showAnswer := False\<rparr>
      else prev)"

text \<open>
  \<open>handleCorrect\<close> and \<open>handleIncorrect\<close> read \<open>currentCard.id\<close> of their render, which
  throws a TypeError when the card is \<open>undefined\<close>; the \<open>setTimeout (handleNext, 500)\<close>
  that follows is recorded by the component model below.
\<close>

datatype type_error = TypeError

definition handleCorrect ::
  "FlashcardResponse \<Rightarrow> FlashcardState \<Rightarrow> FlashcardState \<Rightarrow> type_error + FlashcardState" where
  "handleCorrect data state prev =
     (case currentCard data state of
        None \<Rightarrow> Inl TypeError
      | Some cur \<Rightarrow>
          Inr (prev\<lparr>correctAnswers := correctAnswers prev + 1,
                    studiedCards := insert (card_id cur) (studiedCards prev)\<rparr>))"

definition handleIncorrect ::
  "FlashcardResponse \<Rightarrow> FlashcardState \<Rightarrow> FlashcardState \<Rightarrow> type_error + FlashcardState" where
  "handleIncorrect data state prev =
     (case currentCard data state of
        None \<Rightarrow> Inl TypeError
      | Some cur \<Rightarrow>
          Inr (prev\<lparr>incorrectAnswers := incorrectAnswers prev + 1,
                    studiedCards := insert (card_id cur) (studiedCards prev)\<rparr>))"

definition handleShuffle :: "FlashcardState \<Rightarrow> FlashcardState" where
  "handleShuffle prev = prev\<lparr>currentIndex := 0, isFlipped := False, showAnswer := False\<rparr>"

definition handleReset :: "FlashcardState \<Rightarrow> FlashcardState" where
  "handleReset prev =
     prev\<lparr>currentIndex := 0, isFlipped := False, showAnswer := False, correctAnswers := 0,
          incorrectAnswers := 0, studiedCards := {}\<rparr>"

definition onDifficultyChange :: "jsstring \<Rightarrow> FlashcardState \<Rightarrow> FlashcardState" where
  "onDifficultyChange v prev = prev\<lparr>difficulty := v, currentIndex := 0\<rparr>"

definition onCategoryChange :: "jsstring \<Rightarrow> FlashcardState \<Rightarrow> FlashcardState" where
  "onCategoryChange v prev = prev\<lparr>category := v, currentIndex := 0\<rparr>"

definition clearFilters :: "FlashcardState \<Rightarrow> FlashcardState" where
  "clearFilters prev = prev\<lparr>difficulty := lit ''all'', category := lit ''all''\<rparr>"

definition difficultyOptions :: "jsstring list" where
  "difficultyOptions = [lit ''all'', lit ''easy'', lit ''medium'', lit ''hard'']"

definition categoryOptions :: "jsstring list" where
  "categoryOptions =
     [lit ''all'', lit ''concept'', lit ''definition'', lit ''application'', lit ''analysis'']"

text \<open>
  The mounted component: its props, its state, and the \<open>handleNext\<close> callbacks that
  \<open>setTimeout\<close> has queued, oldest first, each with the state of the render whose
  closure it is (all have the same delay, so they fire in the order queued).
\<close>

record Flashcards =
  data :: FlashcardResponse
  state :: FlashcardState
  timeouts :: "FlashcardState list"

definition mountFlashcards :: "FlashcardResponse \<Rightarrow> Flashcards" where
  "mountFlashcards d = \<lparr>data = d, state = initialFlashcardState, timeouts = []\<rparr>"

text \<open>
  What a render shows. With an empty deck or no card matching the filters only a
  notice is shown (the second with the Clear Filters button). Otherwise the study
  view is rendered, which reads fields of \<open>currentCard\<close>: that render throws when the
  card is \<open>undefined\<close>, and nothing is displayed any more.
\<close>

definition studyViewShown :: "Flashcards \<Rightarrow> bool" where
  "studyViewShown v \<longleftrightarrow>
     flashcards (data v) \<noteq> [] \<and> totalCards (data v) (state v) \<noteq> 0
     \<and> currentCard (data v) (state v) \<noteq> None"

definition renderThrows :: "Flashcards \<Rightarrow> bool" where
  "renderThrows v \<longleftrightarrow>
     flashcards (data v) \<noteq> [] \<and> totalCards (data v) (state v) \<noteq> 0
     \<and> currentCard (data v) (state v) = None"

datatype flashcard_event =
    Flip | ClickNext | ClickPrevious | MarkCorrect | MarkIncorrect
  | SelectDifficulty jsstring | SelectCategory jsstring
  | Shuffle | Reset | ClearFilters | Timeout

text \<open>
  One event on the mounted component. A control takes an event only while it is
  rendered and not disabled: Next is disabled at the last card, Previous at the
  first, the Correct and Incorrect buttons are on the answer face, a select offers
  its options only. \<open>Timeout\<close> runs the oldest queued callback.
\<close>

fun flashcardStep :: "flashcard_event \<Rightarrow> Flashcards \<Rightarrow> Flashcards" where
  "flashcardStep Flip v =
     (if studyViewShown v then v\<lparr>state := handleFlip (state v)\<rparr> else v)"
| "flashcardStep ClickNext v =
     (if studyViewShown v \<and> currentIndex (state v) \<noteq> totalCards (data v) (state v) - 1
      then v\<lparr>state := handleNext (data v) (state v) (state v)\<rparr> else v)"
| "flashcardStep ClickPrevious v =
     (if studyViewShown v \<and> currentIndex (state v) \<noteq> 0
      then v\<lparr>state := handlePrevious (state v) (state v)\<rparr> else v)"
| "flashcardStep MarkCorrect v =
     (if studyViewShown v \<and> showAnswer (state v) then
        (case handleCorrect (data v) (state v) (state v) of
           Inl e \<Rightarrow> v
         | Inr st \<Rightarrow> v\<lparr>state := st, timeouts := timeouts v @ [state v]\<rparr>)
      else v)"
| "flashcardStep MarkIncorrect v =
     (if studyViewShown v \<and> showAnswer (state v) then
        (case handleIncorrect (data v) (state v) (state v) of
           Inl e \<Rightarrow> v
         | Inr st \<Rightarrow> v\<lparr>state := st, timeouts := timeouts v @ [state v]\<rparr>)
      else v)"
| "flashcardStep (SelectDifficulty d) v =
     (if studyViewShown v \<and> d \<in> set difficultyOptions
      then v\<lparr>state := onDifficultyChange d (state v)\<rparr> else v)"
| "flashcardStep (SelectCategory c) v =
     (if studyViewShown v \<and> c \<in> set categoryOptions
      then v\<lparr>state := onCategoryChange c (state v)\<rparr> else v)"
| "flashcardStep Shuffle v =
     (if studyViewShown v then v\<lparr>state := handleShuffle (state v)\<rparr> else v)"
| "flashcardStep Reset v =
     (if studyViewShown v then v\<lparr>state := handleReset (state v)\<rparr> else v)"
| "flashcardStep ClearFilters v =
     (if flashcards (data v) \<noteq> [] \<and> totalCards (data v) (state v) = 0
      then v\<lparr>state := clearFilters (state v)\<rparr> else v)"
| "flashcardStep Timeout v =
     (case timeouts v of
        [] \<Rightarrow> v
      | closure # rest \<Rightarrow>
          v\<lparr>state := handleNext (data v) closure (state v), timeouts := rest\<rparr>)"

fun flashcardRun :: "flashcard_event list \<Rightarrow> Flashcards \<Rightarrow> Flashcards" where
  "flashcardRun [] v = v"
| "flashcardRun (e # es) v = flashcardRun es (flashcardStep e v)"

text \<open>
  The events of a session in which nothing comes between a mark and the advance it
  queues: the callback runs right after each mark, and at no other time.
\<close>

fun settled :: "flashcard_event list \<Rightarrow> flashcard_event list" where
  "settled [] = []"
| "settled (MarkCorrect # es) = MarkCorrect # Timeout # settled es"
| "settled (MarkIncorrect # es) = MarkIncorrect # Timeout # settled es"
| "settled (Timeout # es) = settled es"
| "settled (e # es) = e # settled es"

text \<open>The index is within the filtered deck, or 0 when that deck is empty.\<close>

definition indexInBounds :: "Flashcards \<Rightarrow> bool" where
  "indexInBounds v \<longleftrightarrow>
     0 \<le> currentIndex (state v)
     \<and> (currentIndex (state v) = 0 \<or> currentIndex (state v) < totalCards (data v) (state v))"

definition calm :: "Flashcards \<Rightarrow> bool" where
  "calm v \<longleftrightarrow> indexInBounds v \<and> timeouts v = []"

section \<open>Tutor chat (tutor-chat component)\<close>

datatype message_type = User | Tutor

record Message =
  msg_id :: jsstring
  msg_type :: message_type
  content :: jsstring
  timestamp :: nat
  tutorData :: "TutorResponse option"

text \<open>The component: its prop \<open>context\<close> and its three pieces of state.\<close>

record TutorChat =
  tutor_context :: "jsstring option"
  messages :: "Message list"
  inputValue :: jsstring
  isLoading :: bool

definition mountTutorChat :: "jsstring option \<Rightarrow> nat \<Rightarrow> TutorChat" where
  "mountTutorChat ctx date =
     \<lparr>tutor_context = ctx,
      messages =
        [\<lparr>msg_id = lit ''1'', msg_type = Tutor,
          content = lit ''Hello! I'm your AI tutor. I'm here to help you understand concepts from your document. Ask me anything!'',
          timestamp = date, tutorData = None\<rparr>],
      inputValue = [],
      isLoading = False\<rparr>"

text \<open>
  \<open>handleSendMessage\<close> up to its \<open>await\<close>: the new state and the request issued, if
  any. \<open>now\<close> is what \<open>Date.now ()\<close> returns and \<open>date\<close> the time of \<open>new Date ()\<close>.
\<close>

definition handleSendMessage :: "nat \<Rightarrow> nat \<Rightarrow> TutorChat \<Rightarrow> TutorChat \<times> apiCall option" where
  "handleSendMessage now date c =
     (if falsy (trim (inputValue c)) \<or> isLoading c then (c, None)
      else
        let userMessage =
          \<lparr>msg_id = toString now, msg_type = User, content = inputValue c,
           timestamp = date, tutorData = None\<rparr>
        in (c\<lparr>messages := messages c @ [userMessage], inputValue := [], isLoading := True\<rparr>,
            Some (askTutor (inputValue c) (tutor_context c))))"

text \<open>The rest of \<open>handleSendMessage\<close>, run when the request has settled.\<close>

definition handleSendMessage_settled ::
  "nat \<Rightarrow> nat \<Rightarrow> api_error + TutorResponse \<Rightarrow> TutorChat \<Rightarrow> TutorChat" where
  "handleSendMessage_settled now date r c =
     (case r of
        Inr response \<Rightarrow>
          c\<lparr>messages := messages c @
               [\<lparr>msg_id = toString (now + 1), msg_type = Tutor,
                 content = explanation response, timestamp = date,
                 tutorData = Some response\<rparr>],
            isLoading := False\<rparr>
      | Inl e \<Rightarrow>
          c\<lparr>messages := messages c @
               [\<lparr>msg_id = toString (now + 1), msg_type = Tutor,
                 content = lit ''I'm sorry, I encountered an error while processing your question. Please try again.'',
                 timestamp = date, tutorData = None\<rparr>],
            isLoading := False\<rparr>)"

section \<open>Dashboard: the fan-out after an upload\<close>

datatype view = UploadView | KnowledgeTreeView | SummariesView | FlashcardsView | TutorView

record DashboardState =
  currentView :: view
  document :: "DocumentUploadResponse option"
  knowledgeGraph :: "KnowledgeGraphResponse option"
  state_flashcards :: "FlashcardResponse option"
  summaries :: "SummaryResponse option"
  isGenerating :: bool
  generationProgress :: int

definition initialDashboardState :: DashboardState where
  "initialDashboardState =
     \<lparr>currentView = UploadView, document = None, knowledgeGraph = None,
      state_flashcards = None, summaries = None, isGenerating = False,
      generationProgress = 0\<rparr>"

definition handleViewChange :: "view \<Rightarrow> DashboardState \<Rightarrow> DashboardState" where
  "handleViewChange v prev = prev\<lparr>currentView := v\<rparr>"

text \<open>
  One invocation of the asynchronous \<open>handleUploadComplete\<close>: the dashboard state,
  whether the \<open>progressInterval\<close> timer of this invocation is set, the number of
  intervals that earlier invocations set and never cleared, the three promises
  handed to \<open>Promise.all\<close> (\<open>None\<close> while pending, then fulfilled \<open>Inr\<close> or rejected
  \<open>Inl\<close>), and whether the function is still suspended at its \<open>await\<close>. One
  invocation is followed at a time: a further upload is taken up when the
  generation before it is over.
\<close>

record generation =
  dashboard :: DashboardState
  progressInterval :: bool
  strayIntervals :: nat
  graphPromise :: "(api_error + KnowledgeGraphResponse) option"
  flashcardsPromise :: "(api_error + FlashcardResponse) option"
  summaryPromise :: "(api_error + SummaryResponse) option"
  awaiting :: bool

text \<open>
  \<open>handleUploadComplete\<close> up to its \<open>await\<close>: the first \<open>setState\<close>, the interval, and
  the three calls of the array handed to \<open>Promise.all\<close>, in the order they are made.
  The timers are not part of the React state: \<open>stray\<close> is the number of intervals
  that are still set from earlier invocations, 0 at the first upload.
\<close>

definition handleUploadComplete ::
  "DocumentUploadResponse \<Rightarrow> nat \<Rightarrow> DashboardState \<Rightarrow> generation \<times> apiCall list" where
  "handleUploadComplete doc stray prev =
     (\<lparr>dashboard = prev\<lparr>document := Some doc, isGenerating := True, generationProgress := 0\<rparr>,
       progressInterval = True,
       strayIntervals = stray,
       graphPromise = None, flashcardsPromise = None, summaryPromise = None,
       awaiting = True\<rparr>,
      [generateKnowledgeGraph (document_id doc) (raw_text doc),
       generateFlashcards (document_id doc) (raw_text doc),
       generateSummary (document_id doc) (raw_text doc)])"

text \<open>The callback of the interval.\<close>

definition progressTick :: "DashboardState \<Rightarrow> DashboardState" where
  "progressTick prev = prev\<lparr>generationProgress := min (generationProgress prev + 10) 90\<rparr>"

text \<open>
  The code after the \<open>await\<close>. \<open>Promise.all\<close> fulfils when the three promises are
  fulfilled, and then the \<open>try\<close> block goes on; it rejects as soon as one promise
  rejects, and then the \<open>catch\<close> block runs, which \<open>progressInterval\<close> is not in scope
  of: after a failure the interval stays set for good. Events are handled one at
  a time, so the function is resumed by the event that settles \<open>Promise.all\<close>.
\<close>

definition rejected :: "('e + 'a) option \<Rightarrow> bool" where
  "rejected p = (case p of Some (Inl e) \<Rightarrow> True | _ \<Rightarrow> False)"

definition resume :: "generation \<Rightarrow> generation" where
  "resume g =
     (if \<not> awaiting g then g
      else
        (case (graphPromise g, flashcardsPromise g, summaryPromise g) of
           (Some (Inr knowledgeGraph'), Some (Inr flashcards'), Some (Inr summaries')) \<Rightarrow>
              g\<lparr>dashboard := (dashboard g)
                   \<lparr>knowledgeGraph := Some knowledgeGraph',
                    state_flashcards := Some flashcards',
                    summaries := Some summaries',
                    isGenerating := False,
                    generationProgress := 100,
                    currentView := KnowledgeTreeView\<rparr>,
                progressInterval := False,
                awaiting := False\<rparr>
         | _ \<Rightarrow>
              if rejected (graphPromise g) \<or> rejected (flashcardsPromise g)
                 \<or> rejected (summaryPromise g)
              then
                g\<lparr>dashboard := (dashboard g)\<lparr>isGenerating := False, generationProgress := 0\<rparr>,
                  awaiting := False\<rparr>
              else g))"

datatype generation_event =
    Tick
  | StrayTick
  | GraphSettled "api_error + KnowledgeGraphResponse"
  | FlashcardsSettled "api_error + FlashcardResponse"
  | SummarySettled "api_error + SummaryResponse"
  | ViewChange view

text \<open>
  One event during or after the generation. A promise settles once: a second
  settlement of the same request does not happen. \<open>Tick\<close> is the interval of this
  invocation, which fires only while set; \<open>StrayTick\<close> is an interval left set by an
  earlier invocation, which fires whenever there is one.
\<close>

fun generationStep :: "generation_event \<Rightarrow> generation \<Rightarrow> generation" where
  "generationStep Tick g =
     (if progressInterval g then g\<lparr>dashboard := progressTick (dashboard g)\<rparr> else g)"
| "generationStep StrayTick g =
     (if strayIntervals g > 0 then g\<lparr>dashboard := progressTick (dashboard g)\<rparr> else g)"
| "generationStep (GraphSettled r) g =
     (if graphPromise g = None then resume (g\<lparr>graphPromise := Some r\<rparr>) else g)"
| "generationStep (FlashcardsSettled r) g =
     (if flashcardsPromise g = None then resume (g\<lparr>flashcardsPromise := Some r\<rparr>) else g)"
| "generationStep (SummarySettled r) g =
     (if summaryPromise g = None then resume (g\<lparr>summaryPromise := Some r\<rparr>) else g)"
| "generationStep (ViewChange v) g = g\<lparr>dashboard := handleViewChange v (dashboard g)\<rparr>"

fun generationRun :: "generation_event list \<Rightarrow> generation \<Rightarrow> generation" where
  "generationRun [] g = g"
| "generationRun (e # es) g = generationRun es (generationStep e g)"

text \<open>
  The next upload, once a generation is over: the intervals still set are the ones
  that were stray before and, after a failure, the one of that generation.
\<close>

definition nextUpload :: "DocumentUploadResponse \<Rightarrow> generation \<Rightarrow> generation \<times> apiCall list" where
  "nextUpload doc g =
     handleUploadComplete doc
       (strayIntervals g + (if progressInterval g then 1 else 0)) (dashboard g)"

text \<open>The three promises are all fulfilled, with these values.\<close>

definition allFulfilled ::
  "generation \<Rightarrow> KnowledgeGraphResponse \<Rightarrow> FlashcardResponse \<Rightarrow> SummaryResponse \<Rightarrow> bool" where
  "allFulfilled g kg fc sm \<longleftrightarrow>
     graphPromise g = Some (Inr kg) \<and> flashcardsPromise g = Some (Inr fc)
     \<and> summaryPromise g = Some (Inr sm)"


section \<open>Knowledge tree view (knowledge-tree component)\<close>

text \<open>
  The connection that the graph library hands to \<open>onConnect\<close>: source and target
  node ids and handles, each a string or \<open>null\<close>.
\<close>

record Connection =
  conn_source :: "jsstring option"
  conn_target :: "jsstring option"
  conn_sourceHandle :: "jsstring option"
  conn_targetHandle :: "jsstring option"

text \<open>
  \<open>addEdge\<close> is the graph library's function (reactflow), used by \<open>onConnect\<close>. It
  returns the edges as they are when the connection lacks a source or a target, or
  when an edge with the same source, target and handles exists; otherwise it
  returns them with one edge more, made from the connection, whose id is
  \<open>reactflow__edge-\<close> followed by source, source handle, \<open>-\<close>, target and target handle.
\<close>

definition orEmpty :: "jsstring option \<Rightarrow> jsstring" where
  "orEmpty h = (case h of None \<Rightarrow> [] | Some s \<Rightarrow> s)"

definition getEdgeId :: "Connection \<Rightarrow> jsstring" where
  "getEdgeId c =
     lit ''reactflow__edge-'' @ orEmpty (conn_source c) @ orEmpty (conn_sourceHandle c)
     @ lit ''-'' @ orEmpty (conn_target c) @ orEmpty (conn_targetHandle c)"

definition sameHandle :: "jsstring option \<Rightarrow> jsstring option \<Rightarrow> bool" where
  "sameHandle a b \<longleftrightarrow> a = b \<or> (falsy (orEmpty a) \<and> falsy (orEmpty b))"

definition connectionExists :: "graph_edge \<Rightarrow> graph_edge list \<Rightarrow> bool" where
  "connectionExists edge eds =
     list_ex (\<lambda>el. source el = source edge \<and> target el = target edge
                \<and> sameHandle (sourceHandle el) (sourceHandle edge)
                \<and> sameHandle (targetHandle el) (targetHandle edge)) eds"

definition addEdge :: "Connection \<Rightarrow> graph_edge list \<Rightarrow> graph_edge list" where
  "addEdge edgeParams eds =
     (if falsy (orEmpty (conn_source edgeParams)) \<or> falsy (orEmpty (conn_target edgeParams))
      then eds
      else
        let edge =
          \<lparr>edge_id = getEdgeId edgeParams,
           source = orEmpty (conn_source edgeParams),
           target = orEmpty (conn_target edgeParams),
           edge_type = None,
           sourceHandle = conn_sourceHandle edgeParams,
           targetHandle = conn_targetHandle edgeParams\<rparr>
        in if connectionExists edge eds then eds else eds @ [edge])"

text \<open>
  The component: its prop \<open>data\<close> (the graph the dashboard holds) and its own state,
  the node and edge lists that \<open>useNodesState\<close> and \<open>useEdgesState\<close> start from
  \<open>data.nodes\<close> and \<open>data.edges\<close>, and the selected node.
\<close>

record KnowledgeTree =
  tree_data :: KnowledgeGraphResponse
  tree_nodes :: "graph_node list"
  tree_edges :: "graph_edge list"
  selectedNode :: "graph_node option"

definition mountKnowledgeTree :: "KnowledgeGraphResponse \<Rightarrow> KnowledgeTree" where
  "mountKnowledgeTree d =
     \<lparr>tree_data = d, tree_nodes = nodes d, tree_edges = edges d, selectedNode = None\<rparr>"

definition onConnect :: "Connection \<Rightarrow> KnowledgeTree \<Rightarrow> KnowledgeTree" where
  "onConnect params t = t\<lparr>tree_edges := addEdge params (tree_edges t)\<rparr>"

text \<open>The dashboard passes no \<open>onNodeClick\<close> callback, so the click only selects.\<close>

definition onNodeClickHandler :: "graph_node \<Rightarrow> KnowledgeTree \<Rightarrow> KnowledgeTree" where
  "onNodeClickHandler n t = t\<lparr>selectedNode := Some n\<rparr>"

text \<open>
  The handles of the three node components: a root node has a source handle only, a
  branch node a target and a source handle, a leaf node a target handle only. No
  handle has an id.
\<close>

fun hasSourceHandle :: "node_type \<Rightarrow> bool" where
  "hasSourceHandle Root = True"
| "hasSourceHandle Branch = True"
| "hasSourceHandle Leaf = False"

fun hasTargetHandle :: "node_type \<Rightarrow> bool" where
  "hasTargetHandle Root = False"
| "hasTargetHandle Branch = True"
| "hasTargetHandle Leaf = True"

text \<open>
  The connections that a gesture on the rendered graph produces. No connection
  mode is set, so the library's strict mode applies: a connection runs from the
  source handle of a rendered node to the target handle of a rendered node, and
  its handle ids are \<open>null\<close> since the handles have none.
\<close>

definition drawable :: "KnowledgeTree \<Rightarrow> Connection \<Rightarrow> bool" where
  "drawable t c \<longleftrightarrow>
     conn_sourceHandle c = None \<and> conn_targetHandle c = None
     \<and> list_ex (\<lambda>n. conn_source c = Some (node_id n) \<and> hasSourceHandle (node_type n))
          (tree_nodes t)
     \<and> list_ex (\<lambda>n. conn_target c = Some (node_id n) \<and> hasTargetHandle (node_type n))
          (tree_nodes t)"

text \<open>
  \<open>onNodesChange\<close> and \<open>onEdgesChange\<close> come from the library's hooks and apply the
  library's changes (moving, selecting, removing) to the component's own lists; an
  event carries the function that the library applies. A connection reaches
  \<open>onConnect\<close> only when a gesture can produce it.
\<close>

datatype tree_event =
    Connect Connection
  | NodeClick graph_node
  | NodesChange "graph_node list \<Rightarrow> graph_node list"
  | EdgesChange "graph_edge list \<Rightarrow> graph_edge list"

fun treeStep :: "tree_event \<Rightarrow> KnowledgeTree \<Rightarrow> KnowledgeTree" where
  "treeStep (Connect params) t = (if drawable t params then onConnect params t else t)"
| "treeStep (NodeClick n) t = onNodeClickHandler n t"
| "treeStep (NodesChange f) t = t\<lparr>tree_nodes := f (tree_nodes t)\<rparr>"
| "treeStep (EdgesChange f) t = t\<lparr>tree_edges := f (tree_edges t)\<rparr>"

fun treeRun :: "tree_event list \<Rightarrow> KnowledgeTree \<Rightarrow> KnowledgeTree" where
  "treeRun [] t = t"
| "treeRun (e # es) t = treeRun es (treeStep e t)"

section \<open>Knowledge-Tree stage (backend)\<close>

text \<open>
  The stage runs in the backend, which is not among the sources; the frontend only
  declares the type of its result, \<open>KnowledgeGraphResponse\<close>. The stage and its
  checks are written down here from the specification.
\<close>

text \<open>
  Modelled from the spec: the error taxonomy of the Completion Client and the stages
  (the backend's error values are not among the sources).
\<close>

datatype stage_error = TransportError | RateLimited | MalformedResponse












section \<open>Invariant of the fan-out\<close>


section \<open>Sample data\<close>

definition sampleDocument :: DocumentUploadResponse where
  "sampleDocument =
     \<lparr>document_id = lit ''doc-1'', filename = lit ''notes.txt'', topics = [lit ''Biology''],
      sections = [], concept_list = [],
      raw_text = lit ''Photosynthesis converts light into chemical energy.'',
      structure_map = JObject [], word_count = 7, page_count = 1\<rparr>"

definition sampleNode :: "string \<Rightarrow> node_type \<Rightarrow> int \<Rightarrow> graph_node" where
  "sampleNode i ty lv =
     \<lparr>node_id = lit i, node_type = ty,
      node_data = \<lparr>label = lit i, description = [], level = lv\<rparr>, position = (0, 0)\<rparr>"

definition sampleEdge :: "string \<Rightarrow> string \<Rightarrow> string \<Rightarrow> graph_edge" where
  "sampleEdge i a b =
     \<lparr>edge_id = lit i, source = lit a, target = lit b, edge_type = Some (lit ''smoothstep''),
      sourceHandle = None, targetHandle = None\<rparr>"

definition sampleGraph :: KnowledgeGraphResponse where
  "sampleGraph =
     \<lparr>nodes = [sampleNode ''r'' Root 0, sampleNode ''b'' Branch 1, sampleNode ''c'' Leaf 2],
      edges = [sampleEdge ''e1'' ''r'' ''b'', sampleEdge ''e2'' ''b'' ''c''],
      layout = lit ''hierarchical''\<rparr>"


definition sampleCard :: "string \<Rightarrow> string \<Rightarrow> flashcard" where
  "sampleCard i d =
     \<lparr>card_id = lit i, question = lit ''Q'', answer = lit ''A'', card_difficulty = lit d,
      card_category = lit ''concept'', tags = []\<rparr>"

definition sampleDeck :: FlashcardResponse where
  "sampleDeck = \<lparr>flashcards = [sampleCard ''1'' ''easy'', sampleCard ''2'' ''hard'']\<rparr>"

definition sampleSummary :: SummaryResponse where
  "sampleSummary =
     \<lparr>one_page = lit ''Light becomes chemical energy.'', five_page = [], bullet_points = [],
      chapters = []\<rparr>"

definition sampleTutorResponse :: TutorResponse where
  "sampleTutorResponse =
     \<lparr>explanation = lit ''Plants store light as sugar.'', examples = [],
      practice_questions = [], tips = [], summary = [], difficulty_level = lit ''beginner'',
      related_topics = [], response_type = lit ''explanation''\<rparr>"

section \<open>Properties of the API client\<close>

text \<open>
  C8. Each artifact-generation client function posts to the endpoint of the interface
  table: \<open>generateKnowledgeGraph\<close> to \<open>/generate/graph\<close>, \<open>generateSummary\<close> to
  \<open>/generate/summary\<close>, \<open>generateFlashcards\<close> to \<open>/generate/flashcards\<close>, each with a
  JSON object of exactly the two fields \<open>document_id\<close> and \<open>content\<close>, holding the
  supplied document id and text.
\<close>

theorem generate_calls_match_interface:
  "generateKnowledgeGraph d c =
     \<lparr>endpoint = lit ''/generate/graph'', http_method = lit ''POST'',
      body = JObject [(lit ''document_id'', JString d), (lit ''content'', JString c)]\<rparr>
   \<and> generateSummary d c =
     \<lparr>endpoint = lit ''/generate/summary'', http_method = lit ''POST'',
      body = JObject [(lit ''document_id'', JString d), (lit ''content'', JString c)]\<rparr>
   \<and> generateFlashcards d c =
     \<lparr>endpoint = lit ''/generate/flashcards'', http_method = lit ''POST'',
      body = JObject [(lit ''document_id'', JString d), (lit ''content'', JString c)]\<rparr>"
  by (simp add: generateKnowledgeGraph_def generateSummary_def generateFlashcards_def
      JSON_stringify_def)

section \<open>Properties of the file selection\<close>

text \<open>
  C3, as stated, asks for the size error whenever the size exceeds 50 MiB. The type
  is checked first: a file of a type that is not allowed and of 50 MiB + 1 byte gets
  the type error, not the size error.
\<close>

theorem file_select_counterexample:
  "file_size \<lparr>file_name = lit ''photo.png'', file_type = lit ''image/png'',
      file_size = 52428801\<rparr> > 50 * 1024 * 1024
   \<and> error (handleFileSelect
      \<lparr>file_name = lit ''photo.png'', file_type = lit ''image/png'', file_size = 52428801\<rparr>
      initialUploadState)
     = Some (lit ''Please select a PDF, PPTX, or TXT file'')
   \<and> error (handleFileSelect
      \<lparr>file_name = lit ''photo.png'', file_type = lit ''image/png'', file_size = 52428801\<rparr>
      initialUploadState)
     \<noteq> Some (lit ''File size must be less than 50MB'')"
  by (simp add: handleFileSelect_def allowedTypes_def lit_def)

text \<open>
  C3, amended. A file whose declared type is outside the three allowed MIME types is
  refused with the type error; a file of an allowed type whose size exceeds
  50 * 1024 * 1024 bytes is refused with the size error; in both cases no file is
  kept. A file of an allowed type and of at most that size is kept and the error is
  cleared.
\<close>

theorem file_select_checks:
  "(file_type f \<notin> {lit ''application/pdf'',
        lit ''application/vnd.openxmlformats-officedocument.presentationml.presentation'',
        lit ''text/plain''}
      \<longrightarrow> handleFileSelect f prev =
          prev\<lparr>error := Some (lit ''Please select a PDF, PPTX, or TXT file''),
               upload_file := None\<rparr>)
   \<and> (file_type f \<in> set allowedTypes \<and> file_size f > 50 * 1024 * 1024
      \<longrightarrow> handleFileSelect f prev =
          prev\<lparr>error := Some (lit ''File size must be less than 50MB''), upload_file := None\<rparr>)
   \<and> (file_type f \<in> set allowedTypes \<and> file_size f \<le> 50 * 1024 * 1024
      \<longrightarrow> handleFileSelect f prev =
          prev\<lparr>upload_file := Some f, error := None, success := False\<rparr>)"
  by (simp add: handleFileSelect_def allowedTypes_def)

theorem file_select_checks_witness:
  "handleFileSelect
      \<lparr>file_name = lit ''a.png'', file_type = lit ''image/png'', file_size = 10\<rparr>
      initialUploadState
    = initialUploadState\<lparr>error := Some (lit ''Please select a PDF, PPTX, or TXT file''),
        upload_file := None\<rparr>
   \<and> handleFileSelect
      \<lparr>file_name = lit ''a.pdf'', file_type = lit ''application/pdf'', file_size = 52428801\<rparr>
      initialUploadState
    = initialUploadState\<lparr>error := Some (lit ''File size must be less than 50MB''),
        upload_file := None\<rparr>
   \<and> handleFileSelect
      \<lparr>file_name = lit ''a.txt'', file_type = lit ''text/plain'', file_size = 52428800\<rparr>
      (initialUploadState\<lparr>error := Some (lit ''Upload failed'')\<rparr>)
    = initialUploadState\<lparr>error := Some (lit ''Upload failed'')\<rparr>
        \<lparr>upload_file := Some \<lparr>file_name = lit ''a.txt'', file_type = lit ''text/plain'',
           file_size = 52428800\<rparr>, error := None, success := False\<rparr>"
  using
    file_select_checks [of "\<lparr>file_name = lit ''a.png'', file_type = lit ''image/png'',
      file_size = 10\<rparr>" initialUploadState]
    file_select_checks [of "\<lparr>file_name = lit ''a.pdf'', file_type = lit ''application/pdf'',
      file_size = 52428801\<rparr>" initialUploadState]
    file_select_checks [of "\<lparr>file_name = lit ''a.txt'', file_type = lit ''text/plain'',
      file_size = 52428800\<rparr>" "initialUploadState\<lparr>error := Some (lit ''Upload failed'')\<rparr>"]
  by (simp add: allowedTypes_def lit_def)

section \<open>Properties of the flashcard study view\<close>

text \<open>
  C7. Reset sets the current index and both counters to 0 and empties the set of
  studied cards, whatever the state was; it leaves the difficulty and category
  filters as they are, and the deck, which is a prop of the component, is not
  touched by the Reset button.
\<close>

theorem reset_frame:
  "currentIndex (handleReset prev) = 0
   \<and> correctAnswers (handleReset prev) = 0
   \<and> incorrectAnswers (handleReset prev) = 0
   \<and> studiedCards (handleReset prev) = {}
   \<and> difficulty (handleReset prev) = difficulty prev
   \<and> category (handleReset prev) = category prev
   \<and> data (flashcardStep Reset v) = data v
   \<and> state (flashcardStep Reset v) = (if studyViewShown v then handleReset (state v) else state v)"
  by (simp add: handleReset_def)

text \<open>
  C9 says that every sequence of next, previous, mark and filter events keeps the
  index within the filtered deck. The advance after a mark is a \<open>handleNext\<close> queued
  for 500 ms later, and its guard reads the index and the deck size of the render it
  was created in. On a deck of two cards, at index 0: the card is flipped, Correct is
  pressed twice, and the two queued callbacks run. Both guards read index 0 and
  pass, both updates add 1: the index is 2 in a deck of 2, the current card is
  undefined and the render throws.
\<close>

theorem flashcard_index_escapes:
  "currentIndex (state (flashcardRun [Flip, MarkCorrect, MarkCorrect, Timeout, Timeout]
      (mountFlashcards sampleDeck))) = 2
   \<and> totalCards sampleDeck (state (flashcardRun [Flip, MarkCorrect, MarkCorrect, Timeout, Timeout]
      (mountFlashcards sampleDeck))) = 2
   \<and> renderThrows (flashcardRun [Flip, MarkCorrect, MarkCorrect, Timeout, Timeout]
      (mountFlashcards sampleDeck))"
  by (simp add: mountFlashcards_def initialFlashcardState_def studyViewShown_def renderThrows_def
      totalCards_def filteredCards_def currentCard_def handleFlip_def handleCorrect_def
      handleNext_def sampleDeck_def sampleCard_def)

text \<open>
  The same stale guard lets a filter change race with the queued advance: a mark at
  index 0 of two cards, then the filter \<open>hard\<close> (one card, index 0), then the callback,
  whose guard still reads a deck of two.
\<close>

lemma flashcard_filter_race:
  "currentIndex (state (flashcardRun [Flip, MarkCorrect, SelectDifficulty (lit ''hard''), Timeout]
      (mountFlashcards sampleDeck))) = 1
   \<and> totalCards sampleDeck (state (flashcardRun
        [Flip, MarkCorrect, SelectDifficulty (lit ''hard''), Timeout]
        (mountFlashcards sampleDeck))) = 1
   \<and> renderThrows (flashcardRun [Flip, MarkCorrect, SelectDifficulty (lit ''hard''), Timeout]
      (mountFlashcards sampleDeck))"
  by (simp add: mountFlashcards_def initialFlashcardState_def studyViewShown_def renderThrows_def
      totalCards_def filteredCards_def currentCard_def handleFlip_def handleCorrect_def
      handleNext_def onDifficultyChange_def difficultyOptions_def sampleDeck_def sampleCard_def
      lit_def)

text \<open>
  The bound that C9 states does hold when nothing comes between a mark and its queued
  advance: then every guard reads the state it is applied to, and after any such
  session the current card is defined unless no card matches the filters.
\<close>

lemma totalCards_nonneg: "0 \<le> totalCards d st"
  by (simp add: totalCards_def)

lemma totalCards_filters:
  "difficulty a = difficulty b \<Longrightarrow> category a = category b \<Longrightarrow> totalCards d a = totalCards d b"
  by (simp add: totalCards_def filteredCards_def)

lemma totalCards_updates:
  "totalCards d (st\<lparr>currentIndex := i\<rparr>) = totalCards d st"
  "totalCards d (st\<lparr>isFlipped := f\<rparr>) = totalCards d st"
  "totalCards d (st\<lparr>showAnswer := f\<rparr>) = totalCards d st"
  "totalCards d (st\<lparr>correctAnswers := n\<rparr>) = totalCards d st"
  "totalCards d (st\<lparr>incorrectAnswers := n\<rparr>) = totalCards d st"
  "totalCards d (st\<lparr>studiedCards := cs\<rparr>) = totalCards d st"
  by (simp_all add: totalCards_def filteredCards_def)

lemma calm_mount: "calm (mountFlashcards d)"
  by (simp add: calm_def indexInBounds_def mountFlashcards_def initialFlashcardState_def)

lemma calm_user_step:
  assumes "calm v" and "e \<notin> {MarkCorrect, MarkIncorrect, Timeout}"
  shows "calm (flashcardStep e v)"
proof (cases e)
  case Flip
  with assms show ?thesis
    by (simp add: calm_def indexInBounds_def handleFlip_def totalCards_updates)
next
  case ClickNext
  with assms show ?thesis
    by (auto simp: calm_def indexInBounds_def handleNext_def totalCards_updates)
next
  case ClickPrevious
  with assms show ?thesis
    by (auto simp: calm_def indexInBounds_def handlePrevious_def totalCards_updates)
next
  case (SelectDifficulty x)
  with assms show ?thesis
    by (simp add: calm_def indexInBounds_def onDifficultyChange_def)
next
  case (SelectCategory x)
  with assms show ?thesis
    by (simp add: calm_def indexInBounds_def onCategoryChange_def)
next
  case Shuffle
  with assms show ?thesis
    by (simp add: calm_def indexInBounds_def handleShuffle_def)
next
  case Reset
  with assms show ?thesis
    by (simp add: calm_def indexInBounds_def handleReset_def)
next
  case ClearFilters
  with assms totalCards_nonneg [of "data v" "state v"] show ?thesis
    by (auto simp: calm_def indexInBounds_def clearFilters_def)
qed (use assms in simp_all)

lemma calm_mark_correct:
  assumes "calm v"
  shows "calm (flashcardStep Timeout (flashcardStep MarkCorrect v))"
proof (cases "studyViewShown v \<and> showAnswer (state v)")
  case False
  with assms show ?thesis by (auto simp: calm_def)
next
  case True
  then obtain cur where cur: "currentCard (data v) (state v) = Some cur"
    by (auto simp: studyViewShown_def)
  from True cur assms show ?thesis
    by (auto simp: calm_def indexInBounds_def handleCorrect_def handleNext_def
        totalCards_updates)
qed

lemma calm_mark_incorrect:
  assumes "calm v"
  shows "calm (flashcardStep Timeout (flashcardStep MarkIncorrect v))"
proof (cases "studyViewShown v \<and> showAnswer (state v)")
  case False
  with assms show ?thesis by (auto simp: calm_def)
next
  case True
  then obtain cur where cur: "currentCard (data v) (state v) = Some cur"
    by (auto simp: studyViewShown_def)
  from True cur assms show ?thesis
    by (auto simp: calm_def indexInBounds_def handleIncorrect_def handleNext_def
        totalCards_updates)
qed

lemma calm_settled_run: "calm v \<Longrightarrow> calm (flashcardRun (settled es) v)"
proof (induction es arbitrary: v rule: settled.induct)
  case 1
  then show ?case by simp
next
  case (2 es)
  then show ?case using calm_mark_correct by simp
next
  case (3 es)
  then show ?case using calm_mark_incorrect by simp
next
  case (4 es)
  then show ?case by simp
qed (simp_all add: calm_user_step del: flashcardStep.simps)

lemma flashcardRun_data: "data (flashcardRun es v) = data v"
proof (induction es arbitrary: v)
  case Nil
  then show ?case by simp
next
  case (Cons e es)
  have "data (flashcardStep e v) = data v"
    by (cases e) (auto split: sum.splits list.splits)
  with Cons show ?case by simp
qed

lemma settled_run_in_bounds:
  "totalCards d (state (flashcardRun (settled es) (mountFlashcards d))) = 0
   \<or> currentCard d (state (flashcardRun (settled es) (mountFlashcards d))) \<noteq> None"
proof -
  let ?v = "flashcardRun (settled es) (mountFlashcards d)"
  have "data ?v = d" by (simp add: flashcardRun_data mountFlashcards_def)
  with calm_settled_run [OF calm_mount, of es d] totalCards_nonneg [of d "state ?v"]
  show ?thesis
    by (auto simp: calm_def indexInBounds_def currentCard_def)
qed

section \<open>Properties of the tutor chat\<close>

lemma trim_empty_iff: "falsy (trim s) \<longleftrightarrow> list_all isWhiteSpace s"
proof -
  have "dropWhile isWhiteSpace (rev (dropWhile isWhiteSpace s)) = []
        \<longleftrightarrow> dropWhile isWhiteSpace s = []"
    by (metis dropWhile_eq_Nil_conv dropWhile_idem rev_is_Nil_conv set_rev dropWhile.simps(1) rev.simps(1))
  then show ?thesis
    by (simp add: falsy_def trim_def dropWhile_eq_Nil_conv list_all_iff)
qed

text \<open>
  C6. The request of a tutor invocation is determined by the question text, the
  supplied context and whether a request is in flight: two chats that agree on
  these issue the same request, whatever their transcripts and whatever the time.
  The request posts to \<open>/tutor\<close> a JSON object with the question and, when a context
  was supplied, the context, and nothing of any earlier message or response.
\<close>

theorem tutor_request_stateless:
  "(inputValue c1 = inputValue c2 \<and> tutor_context c1 = tutor_context c2
      \<and> isLoading c1 = isLoading c2
      \<longrightarrow> snd (handleSendMessage now1 date1 c1) = snd (handleSendMessage now2 date2 c2))
   \<and> snd (handleSendMessage now date c) =
     (if list_all isWhiteSpace (inputValue c) \<or> isLoading c then None
      else Some \<lparr>endpoint = lit ''/tutor'', http_method = lit ''POST'',
             body = JObject ((lit ''question'', JString (inputValue c))
                # (case tutor_context c of None \<Rightarrow> []
                   | Some x \<Rightarrow> [(lit ''context'', JString x)]))\<rparr>)"
  by (simp add: handleSendMessage_def trim_empty_iff askTutor_def JSON_stringify_def optional_def
      Let_def split: option.splits)

theorem tutor_request_stateless_witness:
  "snd (handleSendMessage 1000 1000
      ((mountTutorChat (Some (raw_text sampleDocument)) 0)\<lparr>inputValue := lit ''What is ATP?''\<rparr>))
   = snd (handleSendMessage 9000 9001
      ((handleSendMessage_settled 5000 5002 (Inr sampleTutorResponse)
         (fst (handleSendMessage 4000 4000
           ((mountTutorChat (Some (raw_text sampleDocument)) 0)
              \<lparr>inputValue := lit ''What is light?''\<rparr>))))
        \<lparr>inputValue := lit ''What is ATP?''\<rparr>))
   \<and> snd (handleSendMessage 1000 1000
      ((mountTutorChat (Some (raw_text sampleDocument)) 0)\<lparr>inputValue := lit ''What is ATP?''\<rparr>))
   = Some \<lparr>endpoint = lit ''/tutor'', http_method = lit ''POST'',
        body = JObject [(lit ''question'', JString (lit ''What is ATP?'')),
                        (lit ''context'', JString (raw_text sampleDocument))]\<rparr>"
  using tutor_request_stateless [of
      "(mountTutorChat (Some (raw_text sampleDocument)) 0)\<lparr>inputValue := lit ''What is ATP?''\<rparr>"
      "(handleSendMessage_settled 5000 5002 (Inr sampleTutorResponse)
         (fst (handleSendMessage 4000 4000
           ((mountTutorChat (Some (raw_text sampleDocument)) 0)
              \<lparr>inputValue := lit ''What is light?''\<rparr>))))
        \<lparr>inputValue := lit ''What is ATP?''\<rparr>"
      1000 1000 9000 9001 1000 1000
      "(mountTutorChat (Some (raw_text sampleDocument)) 0)\<lparr>inputValue := lit ''What is ATP?''\<rparr>"]
  by (simp add: mountTutorChat_def handleSendMessage_settled_def handleSendMessage_def
      trim_def falsy_def isWhiteSpace_def lit_def Let_def)

text \<open>
  C10. When the input is empty or consists of white space only, or when a request
  is in flight, \<open>handleSendMessage\<close> leaves the whole state as it is, transcript and
  input field included, and issues no request. The input field is changed by
  \<open>handleSendMessage\<close> only on the path that issues the request, and the part that
  runs when the request has settled does not touch it.
\<close>

theorem send_noop_on_blank_or_loading:
  "(list_all isWhiteSpace (inputValue c) \<or> isLoading c
      \<longrightarrow> handleSendMessage now date c = (c, None))
   \<and> (inputValue (fst (handleSendMessage now date c)) \<noteq> inputValue c
      \<longrightarrow> snd (handleSendMessage now date c) \<noteq> None)
   \<and> inputValue (handleSendMessage_settled now' date' r c) = inputValue c"
  by (simp add: handleSendMessage_def handleSendMessage_settled_def trim_empty_iff Let_def
      split: sum.splits)

theorem send_noop_on_blank_or_loading_witness:
  "handleSendMessage 1000 1000 ((mountTutorChat None 0)\<lparr>inputValue := [0x20, 0x3000, 0x0A]\<rparr>)
     = ((mountTutorChat None 0)\<lparr>inputValue := [0x20, 0x3000, 0x0A]\<rparr>, None)
   \<and> handleSendMessage 1000 1000
       ((mountTutorChat None 0)\<lparr>inputValue := lit ''Why?'', isLoading := True\<rparr>)
     = ((mountTutorChat None 0)\<lparr>inputValue := lit ''Why?'', isLoading := True\<rparr>, None)
   \<and> inputValue (fst (handleSendMessage 1000 1000
        ((mountTutorChat None 0)\<lparr>inputValue := lit ''Why?''\<rparr>))) = []
   \<and> snd (handleSendMessage 1000 1000
        ((mountTutorChat None 0)\<lparr>inputValue := lit ''Why?''\<rparr>)) \<noteq> None"
  using
    send_noop_on_blank_or_loading [of
      "(mountTutorChat None 0)\<lparr>inputValue := [0x20, 0x3000, 0x0A]\<rparr>" 1000 1000]
    send_noop_on_blank_or_loading [of
      "(mountTutorChat None 0)\<lparr>inputValue := lit ''Why?'', isLoading := True\<rparr>" 1000 1000]
    send_noop_on_blank_or_loading [of
      "(mountTutorChat None 0)\<lparr>inputValue := lit ''Why?''\<rparr>" 1000 1000]
  by (simp add: mountTutorChat_def handleSendMessage_def trim_def falsy_def isWhiteSpace_def
      lit_def Let_def)

section \<open>Properties of the fan-out\<close>

lemma rejected_simps [simp]:
  "rejected None = False" "rejected (Some (Inl e)) = True" "rejected (Some (Inr x)) = False"
  by (simp_all add: rejected_def)














text \<open>
  The interval of a failed generation is never cleared. After a first upload whose
  graph request fails, a second upload succeeds in all three requests, and then the
  interval of the first fires: all three artifacts are stored, and the progress is
  back at 90.
\<close>

lemma leaked_interval_lowers_progress:
  "strayIntervals (fst (nextUpload sampleDocument (generationRun
      [GraphSettled (Inl (ApiError (lit ''API request failed'')))]
      (fst (handleUploadComplete sampleDocument 0 initialDashboardState))))) = 1
   \<and> allFulfilled (generationRun
      [GraphSettled (Inr sampleGraph), FlashcardsSettled (Inr sampleDeck),
       SummarySettled (Inr sampleSummary), StrayTick]
      (fst (nextUpload sampleDocument (generationRun
        [GraphSettled (Inl (ApiError (lit ''API request failed'')))]
        (fst (handleUploadComplete sampleDocument 0 initialDashboardState))))))
      sampleGraph sampleDeck sampleSummary
   \<and> generationProgress (dashboard (generationRun
      [GraphSettled (Inr sampleGraph), FlashcardsSettled (Inr sampleDeck),
       SummarySettled (Inr sampleSummary), StrayTick]
      (fst (nextUpload sampleDocument (generationRun
        [GraphSettled (Inl (ApiError (lit ''API request failed'')))]
        (fst (handleUploadComplete sampleDocument 0 initialDashboardState))))))) = 90"
  by (simp add: nextUpload_def handleUploadComplete_def resume_def allFulfilled_def
      progressTick_def)






section \<open>Properties of the knowledge tree view\<close>

lemma treeStep_data: "tree_data (treeStep e t) = tree_data t"
  by (cases e) (simp_all add: onConnect_def onNodeClickHandler_def)

lemma treeRun_data: "tree_data (treeRun evs t) = tree_data t"
  by (induction evs arbitrary: t) (simp_all add: treeStep_data)

text \<open>
  C4 says that no interaction with the rendered graph changes its edge set. On the
  rendered sample graph, with edges from \<open>r\<close> to \<open>b\<close> and from \<open>b\<close> to \<open>c\<close>, the user
  draws a connection from the source handle of the root \<open>r\<close> to the target handle
  of the leaf \<open>c\<close>: the edge \<open>reactflow__edge-r-c\<close> is added to the edges of the view.
\<close>

theorem connect_counterexample:
  "drawable (mountKnowledgeTree sampleGraph)
      \<lparr>conn_source = Some (lit ''r''), conn_target = Some (lit ''c''),
       conn_sourceHandle = None, conn_targetHandle = None\<rparr>
   \<and> tree_edges (treeRun
      [Connect \<lparr>conn_source = Some (lit ''r''), conn_target = Some (lit ''c''),
                conn_sourceHandle = None, conn_targetHandle = None\<rparr>]
      (mountKnowledgeTree sampleGraph))
   = edges sampleGraph @
      [\<lparr>edge_id = lit ''reactflow__edge-r-c'', source = lit ''r'', target = lit ''c'',
        edge_type = None, sourceHandle = None, targetHandle = None\<rparr>]"
  by (simp add: mountKnowledgeTree_def sampleGraph_def sampleNode_def sampleEdge_def
      drawable_def onConnect_def addEdge_def orEmpty_def falsy_def getEdgeId_def
      connectionExists_def sameHandle_def lit_def)

text \<open>
  C4, amended. The graph that the dashboard holds and hands to the view as \<open>data\<close> is
  changed by no sequence of interactions; the view works on its own node and edge
  lists, and these do change. A click on a node changes neither list. Drawing a
  connection leaves the node list as it is and either leaves the edge list as it
  is or appends one edge to it, keeping the edges that were there: the appended
  edge joins the connection's source and target, both non-empty, has the id made
  from them, and no edge with these endpoints and handles was there before. The
  library's node changes (moving, selecting, removing) are applied to the view's
  node list and leave its edge list as it is, and the library's edge changes
  (selecting, removing) are applied to the view's edge list and leave its node
  list as it is.
\<close>

theorem tree_interactions_frame:
  "tree_data (treeRun evs t) = tree_data t
   \<and> tree_nodes (onConnect p t) = tree_nodes t
   \<and> tree_nodes (onNodeClickHandler n t) = tree_nodes t
   \<and> tree_edges (onNodeClickHandler n t) = tree_edges t
   \<and> (tree_edges (onConnect p t) = tree_edges t
       \<or> (\<exists>e. tree_edges (onConnect p t) = tree_edges t @ [e]
              \<and> edge_id e = getEdgeId p
              \<and> source e = orEmpty (conn_source p) \<and> target e = orEmpty (conn_target p)
              \<and> source e \<noteq> [] \<and> target e \<noteq> []
              \<and> \<not> connectionExists e (tree_edges t)))
   \<and> treeStep (Connect p) t = (if drawable t p then onConnect p t else t)
   \<and> treeStep (NodeClick n) t = onNodeClickHandler n t
   \<and> tree_nodes (treeStep (NodesChange f) t) = f (tree_nodes t)
   \<and> tree_edges (treeStep (NodesChange f) t) = tree_edges t
   \<and> tree_edges (treeStep (EdgesChange h) t) = h (tree_edges t)
   \<and> tree_nodes (treeStep (EdgesChange h) t) = tree_nodes t"
  by (simp add: treeRun_data onConnect_def onNodeClickHandler_def addEdge_def Let_def falsy_def)

section \<open>Properties of the Knowledge-Tree stage\<close>












end
